theory Spec2Isabelle
  imports Complex_Main
begin

section \<open>Data model\<close>

text \<open>
  The three scripts of the repository compute lists of target poses for a Dobot Magician
  arm. Python numbers (int or float arguments, always combined with true division and
  \<open>math\<close> functions) are modelled as reals: rounding of IEEE doubles is outside the model.
  Sample counts (\<open>num_points\<close>) are Python ints and stay \<open>int\<close>, so that 0 and negative
  counts are inputs of the model. The only exception the geometry code can raise is the
  division by \<open>num_points - 1\<close>.
\<close>

datatype error = ZeroDivisionError

text \<open>A pose is the dict with the keys \<open>'x'\<close>, \<open>'y'\<close>, \<open>'z'\<close>, \<open>'r'\<close>.\<close>

record pose =
  pose_x :: real
  pose_y :: real
  pose_z :: real
  pose_r :: real

text \<open>A numpy array of three components, and a 3x3 array given by its three rows.\<close>

type_synonym vec3 = "real \<times> real \<times> real"
type_synonym mat3 = "vec3 \<times> vec3 \<times> vec3"

section \<open>\<open>math\<close> and \<open>numpy\<close> operations used by the scripts\<close>

definition radians :: "real \<Rightarrow> real" where
  "radians a = a * pi / 180"

definition degrees :: "real \<Rightarrow> real" where
  "degrees a = a * 180 / pi"

definition atan2 :: "real \<Rightarrow> real \<Rightarrow> real" where
  "atan2 b a =
     (if 0 < a then arctan (b / a)
      else if a < 0 \<and> 0 \<le> b then arctan (b / a) + pi
      else if a < 0 \<and> b < 0 then arctan (b / a) - pi
      else if 0 < b then pi / 2
      else if b < 0 then - (pi / 2)
      else 0)"

fun vadd :: "vec3 \<Rightarrow> vec3 \<Rightarrow> vec3" where
  "vadd (a1, a2, a3) (b1, b2, b3) = (a1 + b1, a2 + b2, a3 + b3)"

fun vsub :: "vec3 \<Rightarrow> vec3 \<Rightarrow> vec3" where
  "vsub (a1, a2, a3) (b1, b2, b3) = (a1 - b1, a2 - b2, a3 - b3)"

fun smult :: "real \<Rightarrow> vec3 \<Rightarrow> vec3" where
  "smult k (a1, a2, a3) = (k * a1, k * a2, k * a3)"

fun sdiv :: "vec3 \<Rightarrow> real \<Rightarrow> vec3" where
  "sdiv (a1, a2, a3) k = (a1 / k, a2 / k, a3 / k)"

fun dot :: "vec3 \<Rightarrow> vec3 \<Rightarrow> real" where
  "dot (a1, a2, a3) (b1, b2, b3) = a1 * b1 + a2 * b2 + a3 * b3"

fun cross :: "vec3 \<Rightarrow> vec3 \<Rightarrow> vec3" where
  "cross (a1, a2, a3) (b1, b2, b3) =
     (a2 * b3 - a3 * b2, a3 * b1 - a1 * b3, a1 * b2 - a2 * b1)"

fun linalg_norm :: "vec3 \<Rightarrow> real" where
  "linalg_norm (a1, a2, a3) = sqrt (a1 * a1 + a2 * a2 + a3 * a3)"

fun column_stack :: "vec3 \<Rightarrow> vec3 \<Rightarrow> vec3 \<Rightarrow> mat3" where
  "column_stack (u1, u2, u3) (v1, v2, v3) (n1, n2, n3) =
     ((u1, v1, n1), (u2, v2, n2), (u3, v3, n3))"

fun matvec :: "mat3 \<Rightarrow> vec3 \<Rightarrow> vec3" where
  "matvec (r1, r2, r3) p = (dot r1 p, dot r2 p, dot r3 p)"

section \<open>\<open>execute_arc_trajectory.py\<close>: arc about an explicit center\<close>

text \<open>
  Lines 57-58 of \<open>calculate_arc_points\<close> (and lines 128-129 of
  \<open>calculate_circle_points_from_current_pos\<close>): the step divides by \<open>num_points - 1\<close>
  with no guard, so \<open>num_points = 1\<close> raises; \<open>range\<close> of a count below one is empty.
\<close>

definition angle_sequence :: "real \<Rightarrow> real \<Rightarrow> int \<Rightarrow> error + real list" where
  "angle_sequence start_angle end_angle num_points =
     (if num_points - 1 = 0 then Inl ZeroDivisionError
      else let angle_step = (end_angle - start_angle) / real_of_int (num_points - 1)
           in Inr (map (\<lambda>i. start_angle + real i * angle_step) [0..<nat num_points]))"

text \<open>
  Line 72: \<open>progress = i / (num_points - 1)\<close>. The loop body only runs after the step
  was computed, so the divisor is not zero there.
\<close>

definition arc_progress :: "nat \<Rightarrow> int \<Rightarrow> real" where
  "arc_progress i num_points = real i / real_of_int (num_points - 1)"

text \<open>Lines 74-85: the dispatch on the policy name, in the source's order.\<close>

definition arc_z :: "string \<Rightarrow> real \<Rightarrow> real \<Rightarrow> real \<Rightarrow> real" where
  "arc_z z_variation_type start_z end_z progress =
     (if z_variation_type = ''linear'' then start_z + (end_z - start_z) * progress
      else if z_variation_type = ''sine'' then
        start_z + (end_z - start_z) * sin (progress * pi)
      else if z_variation_type = ''cosine'' then
        start_z + (end_z - start_z) * (1 - cos (progress * pi)) / 2
      else start_z + (end_z - start_z) * progress)"

text \<open>Lines 63-89: one iteration of the loop over \<open>enumerate(angles)\<close>.\<close>

definition arc_point ::
  "pose \<Rightarrow> real \<Rightarrow> real \<Rightarrow> real \<Rightarrow> int \<Rightarrow> real \<Rightarrow> real \<Rightarrow> string \<Rightarrow> nat \<Rightarrow> real \<Rightarrow> pose" where
  "arc_point current_pose center_x center_y radius num_points start_z end_z
       z_variation_type i angle =
     (let angle_rad = radians angle;
          x = center_x + radius * sin angle_rad;
          y = center_y + radius * (- cos angle_rad);
          progress = arc_progress i num_points;
          z = arc_z z_variation_type start_z end_z progress;
          r = pose_r current_pose
      in \<lparr>pose_x = x, pose_y = y, pose_z = z, pose_r = r\<rparr>)"

text \<open>Lines 34-38: the radius, taken from the stored pose when none is given.\<close>

definition arc_radius :: "pose \<Rightarrow> real \<Rightarrow> real \<Rightarrow> real option \<Rightarrow> real" where
  "arc_radius current_pose center_x center_y radius =
     (case radius of
        None \<Rightarrow> (let dx = pose_x current_pose - center_x;
                     dy = pose_y current_pose - center_y
                 in sqrt (dx ^ 2 + dy ^ 2))
      | Some rad \<Rightarrow> rad)"

text \<open>Lines 41-49: the same rule sets \<open>start_z\<close> and \<open>end_z\<close>.\<close>

definition arc_z_bound :: "pose \<Rightarrow> real \<Rightarrow> real option \<Rightarrow> real" where
  "arc_z_bound current_pose center_z z_value =
     (case z_value of
        None \<Rightarrow> center_z + pose_z current_pose
      | Some zv \<Rightarrow> center_z + zv)"

text \<open>
  \<open>calculate_arc_points\<close>; the copy in \<open>circle_from_current_pos.py\<close> is the same text.
  \<open>current_pose\<close> is the pose stored in the controller object. \<open>current_angle\<close> is
  computed as in the source and then not used.
\<close>

definition calculate_arc_points ::
  "pose \<Rightarrow> real \<Rightarrow> real \<Rightarrow> real \<Rightarrow> real option \<Rightarrow> int \<Rightarrow> real \<Rightarrow> real \<Rightarrow>
   real option \<Rightarrow> real option \<Rightarrow> string \<Rightarrow> error + pose list" where
  "calculate_arc_points current_pose center_x center_y center_z radius num_points
       start_angle end_angle start_z end_z z_variation_type =
     (let radius1 = arc_radius current_pose center_x center_y radius;
          start_z1 = arc_z_bound current_pose center_z start_z;
          end_z1 = arc_z_bound current_pose center_z end_z;
          current_dx = pose_x current_pose - center_x;
          current_dy = pose_y current_pose - center_y;
          current_angle = degrees (atan2 current_dy current_dx)
      in case angle_sequence start_angle end_angle num_points of
           Inl e \<Rightarrow> Inl e
         | Inr angles \<Rightarrow>
             Inr (map (\<lambda>(i, angle). arc_point current_pose center_x center_y radius1
                         num_points start_z1 end_z1 z_variation_type i angle)
                      (enumerate 0 angles)))"

section \<open>\<open>circle_from_current_pos.py\<close>: circle about the current position\<close>

text \<open>Line 143: the progress is guarded here, after the unguarded step of line 128.\<close>

definition circle_progress :: "nat \<Rightarrow> int \<Rightarrow> real" where
  "circle_progress i num_points =
     (if num_points > 1 then real i / real_of_int (num_points - 1) else 0)"

text \<open>Lines 145-156: the offset-around-center dispatch; any other name gives no variation.\<close>

definition circle_z :: "string \<Rightarrow> real \<Rightarrow> real \<Rightarrow> real \<Rightarrow> real" where
  "circle_z z_variation_type center_z z_offset progress =
     (if z_variation_type = ''linear'' then center_z + z_offset * (2 * progress - 1)
      else if z_variation_type = ''sine'' then
        center_z + z_offset * sin (progress * 2 * pi)
      else if z_variation_type = ''cosine'' then
        center_z + z_offset * cos (progress * 2 * pi)
      else center_z)"

definition circle_point ::
  "real \<Rightarrow> real \<Rightarrow> real \<Rightarrow> real \<Rightarrow> real \<Rightarrow> int \<Rightarrow> real \<Rightarrow> string \<Rightarrow> nat \<Rightarrow> real \<Rightarrow> pose" where
  "circle_point center_x center_y center_z current_r radius num_points z_offset
       z_variation_type i angle =
     (let angle_rad = radians angle;
          x = center_x + radius * cos angle_rad;
          y = center_y + radius * sin angle_rad;
          progress = circle_progress i num_points;
          z = circle_z z_variation_type center_z z_offset progress
      in \<lparr>pose_x = x, pose_y = y, pose_z = z, pose_r = current_r\<rparr>)"

text \<open>
  \<open>calculate_circle_points_from_current_pos\<close>. The first argument is what
  \<open>get_current_pose\<close> reads from the arm.
\<close>

definition calculate_circle_points_from_current_pos ::
  "pose \<Rightarrow> real \<Rightarrow> int \<Rightarrow> real \<Rightarrow> real \<Rightarrow> real \<Rightarrow> string \<Rightarrow> error + pose list" where
  "calculate_circle_points_from_current_pos current_pose radius num_points
       start_angle end_angle z_offset z_variation_type =
     (let center_x = pose_x current_pose;
          center_y = pose_y current_pose;
          center_z = pose_z current_pose;
          current_r = pose_r current_pose
      in case angle_sequence start_angle end_angle num_points of
           Inl e \<Rightarrow> Inl e
         | Inr angles \<Rightarrow>
             Inr (map (\<lambda>(i, angle). circle_point center_x center_y center_z current_r
                         radius num_points z_offset z_variation_type i angle)
                      (enumerate 0 angles)))"

section \<open>\<open>execute_3d_circle.py\<close>: circle in an oriented plane\<close>

text \<open>
  Lines 25-31. The source compares a computed double with zero. Over the reals the
  norm is zero exactly for the zero vector. The facts below that evaluate
  \<open>normalize_vector\<close> do so on vectors whose norm is not zero, where the source and the
  model take the same branch. What the source does when a projection that is zero over
  the reals leaves a rounding residue is not covered.
\<close>

definition normalize_vector :: "vec3 \<Rightarrow> vec3" where
  "normalize_vector vector =
     (let norm = linalg_norm vector
      in if norm = 0 then vector else sdiv vector norm)"

definition create_rotation_matrix :: "vec3 \<Rightarrow> vec3 option \<Rightarrow> mat3" where
  "create_rotation_matrix normal_vector up_vector =
     (let n = normalize_vector normal_vector;
          up_vector1 = (case up_vector of
                          None \<Rightarrow> (if \<bar>fst n\<bar> < 9 / 10 then (1, 0, 0) else (0, 1, 0))
                        | Some up \<Rightarrow> up);
          u0 = vsub up_vector1 (smult (dot up_vector1 n) n);
          u = normalize_vector u0;
          v0 = cross n u;
          v = normalize_vector v0
      in column_stack u v n)"

text \<open>Lines 87-91: here the single-point case is tested before the division.\<close>

definition angle_sequence_3d :: "real \<Rightarrow> real \<Rightarrow> int \<Rightarrow> real list" where
  "angle_sequence_3d start_angle end_angle num_points =
     (if num_points = 1 then [start_angle]
      else let angle_step = (end_angle - start_angle) / real_of_int (num_points - 1)
           in map (\<lambda>i. start_angle + real i * angle_step) [0..<nat num_points])"

text \<open>Lines 99-105: the point in the local frame of the circle.\<close>

definition local_point :: "real \<Rightarrow> real \<Rightarrow> vec3" where
  "local_point radius angle =
     (let angle_rad = radians angle;
          local_x = radius * cos angle_rad;
          local_y = radius * sin angle_rad;
          local_z = 0
      in (local_x, local_y, local_z))"

text \<open>Lines 108-115: rotation into the global frame, and the output dict.\<close>

definition global_pose :: "mat3 \<Rightarrow> vec3 \<Rightarrow> real \<Rightarrow> vec3 \<Rightarrow> pose" where
  "global_pose rotation_matrix center current_r p =
     (case vadd (matvec rotation_matrix p) center of
        (g1, g2, g3) \<Rightarrow> \<lparr>pose_x = g1, pose_y = g2, pose_z = g3, pose_r = current_r\<rparr>)"

definition calculate_3d_circle_points ::
  "pose \<Rightarrow> vec3 \<Rightarrow> real \<Rightarrow> vec3 \<Rightarrow> int \<Rightarrow> real \<Rightarrow> real \<Rightarrow> vec3 option \<Rightarrow> pose list" where
  "calculate_3d_circle_points current_pose center radius normal_vector num_points
       start_angle end_angle up_vector =
     (let rotation_matrix = create_rotation_matrix normal_vector up_vector;
          angles = angle_sequence_3d start_angle end_angle num_points;
          current_r = pose_r current_pose
      in map (\<lambda>angle. global_pose rotation_matrix center current_r
                         (local_point radius angle)) angles)"

text \<open>
  \<open>execute_3d_circle\<close> sends every point to \<open>magician.ptp\<close> in order; the model returns
  the list of the calls made, each with its motion mode. The delay between two calls
  is not modelled. No call is made before the whole list is computed, so the pose read
  by \<open>get_current_pose\<close> is one value.
\<close>

definition execute_3d_circle ::
  "pose \<Rightarrow> vec3 \<Rightarrow> real \<Rightarrow> vec3 \<Rightarrow> int \<Rightarrow> real \<Rightarrow> real \<Rightarrow> vec3 option \<Rightarrow> int \<Rightarrow>
   (int \<times> pose) list" where
  "execute_3d_circle current_pose center radius normal_vector num_points
       start_angle end_angle up_vector mode =
     map (\<lambda>point. (mode, point))
       (calculate_3d_circle_points current_pose center radius normal_vector num_points
          start_angle end_angle up_vector)"

text \<open>Lines 176-193 of \<open>execute_circle_from_current_to_point\<close>.\<close>

definition semicircle_center :: "pose \<Rightarrow> vec3 \<Rightarrow> vec3" where
  "semicircle_center current_pose target_point =
     (let current_point = (pose_x current_pose, pose_y current_pose, pose_z current_pose)
      in sdiv (vadd current_point target_point) 2)"

definition semicircle_radius :: "pose \<Rightarrow> vec3 \<Rightarrow> real" where
  "semicircle_radius current_pose target_point =
     (let current_point = (pose_x current_pose, pose_y current_pose, pose_z current_pose)
      in linalg_norm (vsub target_point current_point) / 2)"

definition semicircle_normal :: "pose \<Rightarrow> vec3 \<Rightarrow> vec3 option \<Rightarrow> vec3" where
  "semicircle_normal current_pose target_point plane_normal =
     (let current_point = (pose_x current_pose, pose_y current_pose, pose_z current_pose)
      in case plane_normal of
           None \<Rightarrow>
             (let line_vector = vsub target_point current_point
              in if \<bar>snd (snd line_vector)\<bar> < 9 / 10 * linalg_norm line_vector
                 then cross line_vector (0, 0, 1)
                 else cross line_vector (1, 0, 0))
         | Some pn \<Rightarrow> pn)"

text \<open>
  Line 199: the call passes the angles 0 and 180, no up vector, and leaves the mode at
  its default 1.
\<close>

definition execute_circle_from_current_to_point ::
  "pose \<Rightarrow> vec3 \<Rightarrow> int \<Rightarrow> vec3 option \<Rightarrow> (int \<times> pose) list" where
  "execute_circle_from_current_to_point current_pose target_point num_points plane_normal =
     execute_3d_circle current_pose
       (semicircle_center current_pose target_point)
       (semicircle_radius current_pose target_point)
       (semicircle_normal current_pose target_point plane_normal)
       num_points 0 180 None 1"

section \<open>The planar case of the specification\<close>

text \<open>
  The axis-aligned convention-B point of the specification, written from its words
  (global x = center.x + r cos \<theta>, y = center.y + r sin \<theta>, z = center.z, with \<theta> in
  radians), to be compared with what \<open>calculate_3d_circle_points\<close> computes.
\<close>

definition spec_planar_convention_B :: "vec3 \<Rightarrow> real \<Rightarrow> real \<Rightarrow> real \<Rightarrow> pose" where
  "spec_planar_convention_B center radius current_r theta =
     (case center of
        (c1, c2, c3) \<Rightarrow> \<lparr>pose_x = c1 + radius * cos theta, pose_y = c2 + radius * sin theta,
                          pose_z = c3, pose_r = current_r\<rparr>)"

section \<open>Helper facts about the angle sequence and the loops\<close>

lemma angle_sequence_single: "angle_sequence start_angle end_angle 1 = Inl ZeroDivisionError"
  by (simp add: angle_sequence_def)

lemma angle_sequence_Inr:
  "num_points \<noteq> 1 \<Longrightarrow>
   angle_sequence start_angle end_angle num_points =
     Inr (map (\<lambda>i. start_angle + real i * ((end_angle - start_angle) / real_of_int (num_points - 1)))
            [0..<nat num_points])"
  by (simp add: angle_sequence_def)

lemma map_enumerate_upt:
  "map (\<lambda>(i, a). f i a) (enumerate 0 (map g [0..<k])) = map (\<lambda>i. f i (g i)) [0..<k]"
  by (rule nth_equalityI) (simp_all add: nth_enumerate_eq)

lemma map_enumerate_snd:
  "map (\<lambda>(i, a). f a) (enumerate 0 xs) = map f xs"
  by (rule nth_equalityI) (simp_all add: nth_enumerate_eq)

lemma arc_point_pose_r:
  "pose_r p = pose_r q \<Longrightarrow>
   arc_point p cx cy rad n a b t = arc_point q cx cy rad n a b t"
  by (intro ext) (simp add: arc_point_def)

lemma calculate_arc_points_eq:
  "n \<noteq> 1 \<Longrightarrow>
   calculate_arc_points cp cx cy cz rad n s e sz ez t =
     Inr (map (\<lambda>i. arc_point cp cx cy (arc_radius cp cx cy rad) n (arc_z_bound cp cz sz)
                     (arc_z_bound cp cz ez) t i
                     (s + real i * ((e - s) / real_of_int (n - 1))))
            [0..<nat n])"
  by (simp add: calculate_arc_points_def angle_sequence_Inr map_enumerate_upt)

lemma calculate_circle_points_eq:
  "n \<noteq> 1 \<Longrightarrow>
   calculate_circle_points_from_current_pos cp rad n s e off t =
     Inr (map (\<lambda>i. circle_point (pose_x cp) (pose_y cp) (pose_z cp) (pose_r cp) rad n off t i
                     (s + real i * ((e - s) / real_of_int (n - 1))))
            [0..<nat n])"
  by (simp add: calculate_circle_points_from_current_pos_def angle_sequence_Inr
      map_enumerate_upt)

lemma angle_sequence_3d_eq:
  "n \<noteq> 1 \<Longrightarrow>
   angle_sequence_3d s e n =
     map (\<lambda>i. s + real i * ((e - s) / real_of_int (n - 1))) [0..<nat n]"
  by (simp add: angle_sequence_3d_def)

section \<open>Helper facts about vectors\<close>

lemma linalg_norm_eq_0: "linalg_norm v = 0 \<longleftrightarrow> v = (0, 0, 0)"
proof (cases v)
  case (fields a b c)
  have "a * a + b * b + c * c = 0 \<longleftrightarrow> a = 0 \<and> b = 0 \<and> c = 0"
    by (metis add_nonneg_eq_0_iff mult_eq_0_iff zero_le_square add_nonneg_nonneg)
  then show ?thesis using fields by simp
qed

lemma linalg_norm_sq: "linalg_norm v * linalg_norm v = dot v v"
proof (cases v)
  case (fields a b c)
  have "0 \<le> a * a + b * b + c * c" by simp
  then show ?thesis using fields by simp
qed

lemma linalg_norm_dot: "linalg_norm v = sqrt (dot v v)"
  by (cases v) simp

lemma dot_sdiv: "dot (sdiv a k) b = dot a b / k" "dot b (sdiv a k) = dot b a / k"
  by (cases a; cases b; simp add: add_divide_distrib)+

lemma dot_commute: "dot a b = dot b a"
  by (cases a; cases b; simp add: mult.commute)

lemma dot_normalize_self:
  assumes "v \<noteq> (0, 0, 0)"
  shows "dot (normalize_vector v) (normalize_vector v) = 1"
proof -
  have k: "linalg_norm v \<noteq> 0" using assms by (simp add: linalg_norm_eq_0)
  have "dot (normalize_vector v) (normalize_vector v) = dot v v / (linalg_norm v * linalg_norm v)"
    using k by (simp add: normalize_vector_def dot_sdiv)
  also have "\<dots> = 1" using k by (simp add: linalg_norm_sq [symmetric])
  finally show ?thesis .
qed

lemma lagrange: "dot (cross a b) (cross a b) = dot a a * dot b b - dot a b * dot a b"
  by (cases a; cases b; simp add: algebra_simps)

lemma dot_cross_left: "dot (cross a b) a = 0" "dot (cross a b) b = 0"
  by (cases a; cases b; simp add: algebra_simps)+

lemma projection_orthogonal:
  "dot n n = 1 \<Longrightarrow> dot (vsub up (smult (dot up n) n)) n = 0"
proof (cases up; cases n)
  fix a b c x y z
  assume n: "dot n n = 1" and up: "up = (a, b, c)" and nn: "n = (x, y, z)"
  have "dot (vsub up (smult (dot up n) n)) n = dot up n - dot up n * dot n n"
    by (simp add: up nn algebra_simps)
  then show ?thesis using n by simp
qed

lemma cross_sdiv: "cross a (sdiv b k) = sdiv (cross a b) k"
  by (cases a; cases b; simp add: diff_divide_distrib)

lemma sdiv_eq_0: "k \<noteq> 0 \<Longrightarrow> sdiv a k = (0, 0, 0) \<longleftrightarrow> a = (0, 0, 0)"
  by (cases a) simp

lemma vsub_eq_0: "vsub a b = (0, 0, 0) \<Longrightarrow> a = b"
  by (cases a; cases b; simp)

lemma cross_smult_self: "cross (smult k n) n = (0, 0, 0)"
  by (cases n) (simp add: algebra_simps)

lemma sdiv_one: "sdiv a 1 = a"
  by (cases a) simp

lemma sqrt_100: "sqrt 100 = 10"
  using real_sqrt_abs [of 10] by simp

lemma semicircle_center_midpoint:
  "semicircle_center cp (t1, t2, t3) =
     ((pose_x cp + t1) / 2, (pose_y cp + t2) / 2, (pose_z cp + t3) / 2)"
  by (simp add: semicircle_center_def)

lemma semicircle_radius_half_distance:
  "semicircle_radius cp (t1, t2, t3) =
     sqrt ((t1 - pose_x cp) * (t1 - pose_x cp) + (t2 - pose_y cp) * (t2 - pose_y cp)
           + (t3 - pose_z cp) * (t3 - pose_z cp)) / 2"
  by (simp add: semicircle_radius_def)

lemma execute_circle_from_current_to_point_range:
  "execute_circle_from_current_to_point cp target n pn =
     map (\<lambda>point. (1, point))
       (map (\<lambda>angle. global_pose
                (create_rotation_matrix (semicircle_normal cp target pn) None)
                (semicircle_center cp target) (pose_r cp)
                (local_point (semicircle_radius cp target) angle))
          (angle_sequence_3d 0 180 n))"
  by (simp add: execute_circle_from_current_to_point_def execute_3d_circle_def
      calculate_3d_circle_points_def)

section \<open>Sampling: angles, progress and axis conventions\<close>

text \<open>
  C1. For a request of N \<ge> 2 points, the three generators return exactly N points.
  The i-th point is computed from the angle start_angle + i * (end_angle - start_angle)
  / (N - 1); the first angle is start_angle and the last is end_angle. In
  \<open>calculate_arc_points\<close> and \<open>calculate_circle_points_from_current_pos\<close> the i-th point
  takes its z from the progress i / (N - 1). \<open>calculate_3d_circle_points\<close> runs over the
  same angle list; it has no progress variable, its points depend on the angle alone.
\<close>

theorem evenly_spaced_samples:
  assumes "2 \<le> n"
  shows "\<exists>angles arc_pts circle_pts.
      angle_sequence s e n = Inr angles
    \<and> angle_sequence_3d s e n = angles
    \<and> length angles = nat n
    \<and> angles ! 0 = s \<and> angles ! (nat n - 1) = e
    \<and> (\<forall>i < nat n. angles ! i = s + real i * (e - s) / real_of_int (n - 1))
    \<and> calculate_arc_points cp cx cy cz rad n s e sz ez t = Inr arc_pts
    \<and> length arc_pts = nat n
    \<and> (\<forall>i < nat n. arc_pts ! i =
          \<lparr>pose_x = cx + arc_radius cp cx cy rad * sin (radians (angles ! i)),
           pose_y = cy + arc_radius cp cx cy rad * (- cos (radians (angles ! i))),
           pose_z = arc_z t (arc_z_bound cp cz sz) (arc_z_bound cp cz ez)
                      (real i / real_of_int (n - 1)),
           pose_r = pose_r cp\<rparr>)
    \<and> calculate_circle_points_from_current_pos cq crad n s e off tc = Inr circle_pts
    \<and> length circle_pts = nat n
    \<and> (\<forall>i < nat n. circle_pts ! i =
          \<lparr>pose_x = pose_x cq + crad * cos (radians (angles ! i)),
           pose_y = pose_y cq + crad * sin (radians (angles ! i)),
           pose_z = circle_z tc (pose_z cq) off (real i / real_of_int (n - 1)),
           pose_r = pose_r cq\<rparr>)
    \<and> calculate_3d_circle_points cd center drad normal n s e up
        = map (\<lambda>angle. global_pose (create_rotation_matrix normal up) center (pose_r cd)
                          (local_point drad angle)) angles"
proof -
  define g where "g = (\<lambda>i. s + real i * ((e - s) / real_of_int (n - 1)))"
  define angles where "angles = map g [0..<nat n]"
  from assms have n1: "n \<noteq> 1" by simp
  have len: "length angles = nat n" by (simp add: angles_def)
  have nth: "angles ! i = s + real i * (e - s) / real_of_int (n - 1)" if "i < nat n" for i
    using that by (simp add: angles_def g_def)
  have first: "angles ! 0 = s"
    using assms by (simp add: angles_def g_def)
  have "real (nat n - 1) = real_of_int (n - 1)" using assms by simp
  then have last: "angles ! (nat n - 1) = e"
    using assms by (simp add: angles_def g_def)
  have a: "angle_sequence s e n = Inr angles"
    using n1 by (simp add: angle_sequence_Inr angles_def g_def)
  have a3: "angle_sequence_3d s e n = angles"
    using n1 by (simp add: angle_sequence_3d_eq angles_def g_def)
  define arc_pts where "arc_pts = map (\<lambda>i. arc_point cp cx cy (arc_radius cp cx cy rad) n
      (arc_z_bound cp cz sz) (arc_z_bound cp cz ez) t i (g i)) [0..<nat n]"
  define circle_pts where "circle_pts = map (\<lambda>i. circle_point (pose_x cq) (pose_y cq)
      (pose_z cq) (pose_r cq) crad n off tc i (g i)) [0..<nat n]"
  have b: "calculate_arc_points cp cx cy cz rad n s e sz ez t = Inr arc_pts"
    using n1 by (simp add: calculate_arc_points_eq arc_pts_def g_def)
  have c: "calculate_circle_points_from_current_pos cq crad n s e off tc = Inr circle_pts"
    using n1 by (simp add: calculate_circle_points_eq circle_pts_def g_def)
  have bn: "arc_pts ! i =
          \<lparr>pose_x = cx + arc_radius cp cx cy rad * sin (radians (angles ! i)),
           pose_y = cy + arc_radius cp cx cy rad * (- cos (radians (angles ! i))),
           pose_z = arc_z t (arc_z_bound cp cz sz) (arc_z_bound cp cz ez)
                      (real i / real_of_int (n - 1)),
           pose_r = pose_r cp\<rparr>" if "i < nat n" for i
    using that by (simp add: arc_pts_def angles_def arc_point_def arc_progress_def Let_def)
  have cn: "circle_pts ! i =
          \<lparr>pose_x = pose_x cq + crad * cos (radians (angles ! i)),
           pose_y = pose_y cq + crad * sin (radians (angles ! i)),
           pose_z = circle_z tc (pose_z cq) off (real i / real_of_int (n - 1)),
           pose_r = pose_r cq\<rparr>" if "i < nat n" for i
    using that assms
    by (simp add: circle_pts_def angles_def circle_point_def circle_progress_def Let_def)
  have d: "calculate_3d_circle_points cd center drad normal n s e up
        = map (\<lambda>angle. global_pose (create_rotation_matrix normal up) center (pose_r cd)
                          (local_point drad angle)) angles"
    by (simp add: calculate_3d_circle_points_def a3)
  have "length arc_pts = nat n" "length circle_pts = nat n"
    by (simp_all add: arc_pts_def circle_pts_def)
  with a a3 len first last nth b bn c cn d show ?thesis
    by blast
qed

text \<open>
  The same at the first example of \<open>execute_arc_trajectory.py\<close> with three points, for
  the circle about (200, 0, 30) of \<open>circle_from_current_pos.py\<close>, and for the first
  circle of \<open>execute_3d_circle.py\<close>.
\<close>

theorem evenly_spaced_samples_witness:
  "(2::int) \<le> 3
   \<and> (\<exists>angles arc_pts circle_pts.
      angle_sequence 0 90 3 = Inr angles
    \<and> length angles = 3
    \<and> angles ! 0 = 0 \<and> angles ! 1 = 45 \<and> angles ! 2 = 90
    \<and> calculate_arc_points \<lparr>pose_x = 0, pose_y = -200, pose_z = -30, pose_r = 0\<rparr>
         0 0 0 (Some 200) 3 0 90 (Some (-35)) (Some (-35)) ''linear'' = Inr arc_pts
    \<and> length arc_pts = 3
    \<and> calculate_circle_points_from_current_pos
         \<lparr>pose_x = 200, pose_y = 0, pose_z = 30, pose_r = 0\<rparr> 20 3 0 90 0 ''none''
        = Inr circle_pts
    \<and> length circle_pts = 3
    \<and> length (calculate_3d_circle_points \<lparr>pose_x = 200, pose_y = 0, pose_z = 50, pose_r = 0\<rparr>
         (200, 0, 50) 30 (0, 0, 1) 3 0 90 None) = 3)"
proof -
  have h: "(2::int) \<le> 3" by simp
  from evenly_spaced_samples [OF h, where s = 0 and e = 90
      and cp = "\<lparr>pose_x = 0, pose_y = -200, pose_z = -30, pose_r = 0\<rparr>"
      and cx = 0 and cy = 0 and cz = 0 and rad = "Some 200"
      and sz = "Some (-35)" and ez = "Some (-35)" and t = "''linear''"
      and cq = "\<lparr>pose_x = 200, pose_y = 0, pose_z = 30, pose_r = 0\<rparr>"
      and crad = 20 and off = 0 and tc = "''none''"
      and cd = "\<lparr>pose_x = 200, pose_y = 0, pose_z = 50, pose_r = 0\<rparr>"
      and center = "(200, 0, 50)" and drad = 30 and normal = "(0, 0, 1)" and up = None]
  obtain angles arc_pts circle_pts where
    a: "angle_sequence 0 90 3 = Inr angles" and
    l: "length angles = nat 3" and
    f: "angles ! 0 = 0" and
    la: "angles ! (nat 3 - 1) = 90" and
    nth: "\<forall>i < nat 3. angles ! i = 0 + real i * (90 - 0) / real_of_int (3 - 1)" and
    b: "calculate_arc_points \<lparr>pose_x = 0, pose_y = -200, pose_z = -30, pose_r = 0\<rparr>
         0 0 0 (Some 200) 3 0 90 (Some (-35)) (Some (-35)) ''linear'' = Inr arc_pts" and
    lb: "length arc_pts = nat 3" and
    c: "calculate_circle_points_from_current_pos
         \<lparr>pose_x = 200, pose_y = 0, pose_z = 30, pose_r = 0\<rparr> 20 3 0 90 0 ''none''
        = Inr circle_pts" and
    lc: "length circle_pts = nat 3" and
    d: "calculate_3d_circle_points \<lparr>pose_x = 200, pose_y = 0, pose_z = 50, pose_r = 0\<rparr>
         (200, 0, 50) 30 (0, 0, 1) 3 0 90 None
        = map (\<lambda>angle. global_pose (create_rotation_matrix (0, 0, 1) None) (200, 0, 50)
                 (pose_r \<lparr>pose_x = 200, pose_y = 0, pose_z = 50, pose_r = 0\<rparr>)
                 (local_point 30 angle)) angles"
    by blast
  from nth have "angles ! 1 = 45" by simp
  moreover from la have "angles ! 2 = 90" by simp
  moreover from d l have "length (calculate_3d_circle_points
         \<lparr>pose_x = 200, pose_y = 0, pose_z = 50, pose_r = 0\<rparr>
         (200, 0, 50) 30 (0, 0, 1) 3 0 90 None) = 3" by simp
  ultimately show ?thesis
    using h a l f b lb c lc by auto
qed

text \<open>
  C2. For every sampled angle \<theta> (in degrees, converted by \<open>math.radians\<close>),
  \<open>calculate_arc_points\<close> puts the point at x = center_x + r sin \<theta>, y = center_y - r cos \<theta>
  (convention A); \<open>calculate_circle_points_from_current_pos\<close> puts it at x = center_x +
  r cos \<theta>, y = center_y + r sin \<theta> about the current pose, and
  \<open>calculate_3d_circle_points\<close> uses (r cos \<theta>, r sin \<theta>, 0) in its local frame, before the
  rotation (convention B). The first two equations compare the (x, y) of the returned
  points with the images of the angle list, and hold also when the call raises.
\<close>

theorem axis_conventions:
  "map_sum id (map (\<lambda>p. (pose_x p, pose_y p)))
       (calculate_arc_points cp cx cy cz rad n s e sz ez t)
     = map_sum id (map (\<lambda>angle. (cx + arc_radius cp cx cy rad * sin (radians angle),
                                  cy - arc_radius cp cx cy rad * cos (radians angle))))
       (angle_sequence s e n)
   \<and> map_sum id (map (\<lambda>p. (pose_x p, pose_y p)))
       (calculate_circle_points_from_current_pos cq crad n s e off t)
     = map_sum id (map (\<lambda>angle. (pose_x cq + crad * cos (radians angle),
                                  pose_y cq + crad * sin (radians angle))))
       (angle_sequence s e n)
   \<and> local_point rad3 theta = (rad3 * cos (radians theta), rad3 * sin (radians theta), 0)
   \<and> calculate_3d_circle_points c3 center rad3 normal n s e up
     = map (\<lambda>angle. global_pose (create_rotation_matrix normal up) center (pose_r c3)
                      (rad3 * cos (radians angle), rad3 * sin (radians angle), 0))
         (angle_sequence_3d s e n)"
proof -
  have arc: "map (\<lambda>p. (pose_x p, pose_y p))
        (map (\<lambda>(i, a). arc_point cp cx cy r1 n z1 z2 t i a) (enumerate 0 xs))
      = map (\<lambda>angle. (cx + r1 * sin (radians angle), cy - r1 * cos (radians angle))) xs"
    for r1 z1 z2 xs
    by (rule nth_equalityI) (simp_all add: nth_enumerate_eq arc_point_def Let_def)
  have circle: "map (\<lambda>p. (pose_x p, pose_y p))
        (map (\<lambda>(i, a). circle_point x0 y0 z0 r0 crad n off t i a) (enumerate 0 xs))
      = map (\<lambda>angle. (x0 + crad * cos (radians angle), y0 + crad * sin (radians angle))) xs"
    for x0 y0 z0 r0 xs
    by (rule nth_equalityI) (simp_all add: nth_enumerate_eq circle_point_def Let_def)
  have loc: "local_point rad3 a = (rad3 * cos (radians a), rad3 * sin (radians a), 0)" for a
    by (simp add: local_point_def Let_def)
  have "map_sum id (map (\<lambda>p. (pose_x p, pose_y p)))
       (calculate_arc_points cp cx cy cz rad n s e sz ez t)
     = map_sum id (map (\<lambda>angle. (cx + arc_radius cp cx cy rad * sin (radians angle),
                                  cy - arc_radius cp cx cy rad * cos (radians angle))))
       (angle_sequence s e n)"
    using arc by (cases "angle_sequence s e n") (simp_all add: calculate_arc_points_def)
  moreover have "map_sum id (map (\<lambda>p. (pose_x p, pose_y p)))
       (calculate_circle_points_from_current_pos cq crad n s e off t)
     = map_sum id (map (\<lambda>angle. (pose_x cq + crad * cos (radians angle),
                                  pose_y cq + crad * sin (radians angle))))
       (angle_sequence s e n)"
    using circle
    by (cases "angle_sequence s e n")
       (simp_all add: calculate_circle_points_from_current_pos_def)
  moreover have "calculate_3d_circle_points c3 center rad3 normal n s e up
     = map (\<lambda>angle. global_pose (create_rotation_matrix normal up) center (pose_r c3)
                      (rad3 * cos (radians angle), rad3 * sin (radians angle), 0))
         (angle_sequence_3d s e n)"
    by (simp add: calculate_3d_circle_points_def loc)
  ultimately show ?thesis
    using loc by simp
qed

text \<open>
  C5. With the normal (0, 0, 1) and the up vector (1, 0, 0), the rotation matrix is the
  identity, and \<open>calculate_3d_circle_points\<close> returns, for every sampled angle, the planar
  convention-B point of the specification about the center, with the r of the current
  pose.
\<close>

theorem oriented_reduces_to_planar:
  "calculate_3d_circle_points cp center radius (0, 0, 1) n s e (Some (1, 0, 0))
     = map (\<lambda>angle. spec_planar_convention_B center radius (pose_r cp) (radians angle))
         (angle_sequence_3d s e n)"
proof -
  have "create_rotation_matrix (0, 0, 1) (Some (1, 0, 0)) = ((1, 0, 0), (0, 1, 0), (0, 0, 1))"
    by (simp add: create_rotation_matrix_def normalize_vector_def)
  then show ?thesis
    by (cases center)
       (simp add: calculate_3d_circle_points_def global_pose_def local_point_def
          spec_planar_convention_B_def Let_def)
qed

section \<open>Single-point and empty requests\<close>

text \<open>
  C3. A request for one point (\<open>num_points = 1\<close>) should give the single point at
  \<open>start_angle\<close> with progress 0 and no division by zero. Only
  \<open>calculate_3d_circle_points\<close> does so (lemma \<open>calculate_3d_circle_points_single\<close>
  below). At the sample inputs of the two scripts, with the count set to one,
  \<open>calculate_arc_points\<close> and \<open>calculate_circle_points_from_current_pos\<close> both raise
  ZeroDivisionError when they compute the angle step.
\<close>

theorem single_point_raises_ZeroDivisionError:
  "calculate_arc_points \<lparr>pose_x = 0, pose_y = -200, pose_z = -30, pose_r = 0\<rparr>
       0 0 0 (Some 200) 1 0 90 (Some (-35)) (Some (-35)) ''linear''
     = Inl ZeroDivisionError
   \<and> calculate_circle_points_from_current_pos
       \<lparr>pose_x = 200, pose_y = 0, pose_z = 30, pose_r = 0\<rparr> 20 1 0 360 0 ''none''
     = Inl ZeroDivisionError"
  by (simp add: calculate_arc_points_def calculate_circle_points_from_current_pos_def
      angle_sequence_single)

lemma calculate_arc_points_single:
  "calculate_arc_points cp cx cy cz rad 1 s e sz ez t = Inl ZeroDivisionError"
  by (simp add: calculate_arc_points_def angle_sequence_single)

lemma calculate_circle_points_from_current_pos_single:
  "calculate_circle_points_from_current_pos cp rad 1 s e off t = Inl ZeroDivisionError"
  by (simp add: calculate_circle_points_from_current_pos_def angle_sequence_single)

lemma calculate_3d_circle_points_single:
  "calculate_3d_circle_points cp c rad n 1 s e up =
     [global_pose (create_rotation_matrix n up) c (pose_r cp) (local_point rad s)]"
  by (simp add: calculate_3d_circle_points_def angle_sequence_3d_def)

text \<open>
  C8, as stated: a request for zero points is rejected with an error. It is not: at
  the sample inputs of the scripts with the count set to zero, both generators return
  the empty list.
\<close>

theorem zero_points_not_rejected:
  "calculate_arc_points \<lparr>pose_x = 0, pose_y = -200, pose_z = -30, pose_r = 0\<rparr>
       0 0 0 (Some 200) 0 0 90 (Some (-35)) (Some (-35)) ''linear''
     = Inr []
   \<and> calculate_3d_circle_points \<lparr>pose_x = 200, pose_y = 0, pose_z = 50, pose_r = 0\<rparr>
       (200, 0, 50) 30 (0, 0, 1) 0 0 360 None
     = []"
  by (simp add: calculate_arc_points_def calculate_3d_circle_points_def
      angle_sequence_def angle_sequence_3d_def)

text \<open>
  C8, amended: for \<open>num_points = 0\<close> and any other arguments, \<open>calculate_arc_points\<close>
  and \<open>calculate_3d_circle_points\<close> raise nothing and return the empty sequence.
\<close>

theorem zero_points_returns_empty:
  "calculate_arc_points cp cx cy cz rad 0 s e sz ez t = Inr []
   \<and> calculate_3d_circle_points cp c rad3 n 0 s e up = []"
  by (simp add: calculate_arc_points_def calculate_3d_circle_points_def
      angle_sequence_def angle_sequence_3d_def Let_def)

section \<open>The Z-variation dispatch on an unrecognized name\<close>

text \<open>
  C7, as stated: every dispatch site falls back to the linear policy on an unknown
  name, also the one of \<open>calculate_circle_points_from_current_pos\<close>. About the pose
  (0, 0, 0), with radius 1, two points and \<open>z_offset = 10\<close>, the name \<open>none\<close> leaves z
  at the center's 0 for both points, while the linear policy gives -10 and 10.
\<close>

theorem circle_unrecognized_policy_not_linear:
  "calculate_circle_points_from_current_pos
       \<lparr>pose_x = 0, pose_y = 0, pose_z = 0, pose_r = 0\<rparr> 1 2 0 360 10 ''none''
     = Inr [\<lparr>pose_x = 1, pose_y = 0, pose_z = 0, pose_r = 0\<rparr>,
            \<lparr>pose_x = 1, pose_y = 0, pose_z = 0, pose_r = 0\<rparr>]
   \<and> calculate_circle_points_from_current_pos
       \<lparr>pose_x = 0, pose_y = 0, pose_z = 0, pose_r = 0\<rparr> 1 2 0 360 10 ''linear''
     = Inr [\<lparr>pose_x = 1, pose_y = 0, pose_z = -10, pose_r = 0\<rparr>,
            \<lparr>pose_x = 1, pose_y = 0, pose_z = 10, pose_r = 0\<rparr>]"
  by (simp add: calculate_circle_points_from_current_pos_def angle_sequence_def
      circle_point_def circle_progress_def circle_z_def radians_def upt_rec
      enumerate_eq_zip)

text \<open>
  C7, amended: for a name that is none of \<open>linear\<close>, \<open>sine\<close>, \<open>cosine\<close>, the dispatch of
  \<open>calculate_arc_points\<close> computes z = start_z + (end_z - start_z) * progress and the
  whole call returns what it returns for \<open>linear\<close> (so the name raises nothing); the
  dispatch of \<open>calculate_circle_points_from_current_pos\<close> instead applies no variation:
  z is the center's z, and every returned point has the z of the current pose.
\<close>

theorem unrecognized_policy_fallback:
  assumes "t \<noteq> ''linear''" and "t \<noteq> ''sine''" and "t \<noteq> ''cosine''"
  shows "arc_z t start_z end_z progress = start_z + (end_z - start_z) * progress
    \<and> calculate_arc_points cp cx cy cz rad n s e sz ez t
        = calculate_arc_points cp cx cy cz rad n s e sz ez ''linear''
    \<and> circle_z t center_z z_offset progress = center_z
    \<and> calculate_circle_points_from_current_pos cp crad n s e z_offset t
        = (case angle_sequence s e n of
             Inl err \<Rightarrow> Inl err
           | Inr angles \<Rightarrow>
               Inr (map (\<lambda>angle. \<lparr>pose_x = pose_x cp + crad * cos (radians angle),
                                   pose_y = pose_y cp + crad * sin (radians angle),
                                   pose_z = pose_z cp, pose_r = pose_r cp\<rparr>) angles))"
proof -
  have z: "arc_z t a b p = arc_z ''linear'' a b p" for a b p
    using assms by (simp add: arc_z_def)
  have pt: "arc_point cp cx cy r1 n a b t = arc_point cp cx cy r1 n a b ''linear''" for r1 a b
    by (intro ext) (simp add: arc_point_def z)
  have c: "circle_z t a b p = a" for a b p
    using assms by (simp add: circle_z_def)
  have cpt: "circle_point x0 y0 z0 r0 crad n z_offset t
      = (\<lambda>i angle. \<lparr>pose_x = x0 + crad * cos (radians angle),
                      pose_y = y0 + crad * sin (radians angle),
                      pose_z = z0, pose_r = r0\<rparr>)" for x0 y0 z0 r0
    by (intro ext) (simp add: circle_point_def c Let_def)
  have "arc_z t start_z end_z progress = start_z + (end_z - start_z) * progress"
    using assms by (simp add: arc_z_def)
  moreover have "calculate_arc_points cp cx cy cz rad n s e sz ez t
        = calculate_arc_points cp cx cy cz rad n s e sz ez ''linear''"
    by (simp add: calculate_arc_points_def pt split: sum.splits)
  moreover have "calculate_circle_points_from_current_pos cp crad n s e z_offset t
        = (case angle_sequence s e n of
             Inl err \<Rightarrow> Inl err
           | Inr angles \<Rightarrow>
               Inr (map (\<lambda>angle. \<lparr>pose_x = pose_x cp + crad * cos (radians angle),
                                   pose_y = pose_y cp + crad * sin (radians angle),
                                   pose_z = pose_z cp, pose_r = pose_r cp\<rparr>) angles))"
    by (simp add: calculate_circle_points_from_current_pos_def cpt map_enumerate_snd
        split: sum.splits)
  ultimately show ?thesis
    using c by simp
qed

theorem unrecognized_policy_fallback_witness:
  "''none'' \<noteq> ''linear'' \<and> ''none'' \<noteq> ''sine'' \<and> ''none'' \<noteq> ''cosine''
   \<and> arc_z ''none'' 0 10 (1 / 2) = 5
   \<and> circle_z ''none'' 50 10 (1 / 2) = 50
   \<and> calculate_arc_points \<lparr>pose_x = 0, pose_y = -200, pose_z = -30, pose_r = 0\<rparr>
        0 0 0 (Some 200) 3 0 90 (Some (-30)) (Some 10) ''none''
      = calculate_arc_points \<lparr>pose_x = 0, pose_y = -200, pose_z = -30, pose_r = 0\<rparr>
        0 0 0 (Some 200) 3 0 90 (Some (-30)) (Some 10) ''linear''"
  using unrecognized_policy_fallback [where t = "''none''" and start_z = 0 and end_z = 10
      and progress = "1 / 2" and center_z = 50 and z_offset = 10
      and cp = "\<lparr>pose_x = 0, pose_y = -200, pose_z = -30, pose_r = 0\<rparr>"
      and cx = 0 and cy = 0 and cz = 0 and rad = "Some 200" and n = 3 and s = 0 and e = 90
      and sz = "Some (-30)" and ez = "Some 10"]
  by simp

section \<open>The stored reference pose in \<open>calculate_arc_points\<close>\<close>

text \<open>
  C10. With radius, \<open>start_z\<close> and \<open>end_z\<close> all given, two calls of
  \<open>calculate_arc_points\<close> whose stored poses differ only in x and y (same z, same r)
  return the same result: the angle computed from the stored pose is never used.
\<close>

theorem calculate_arc_points_ignores_reference_xy:
  assumes "pose_z p = pose_z q" and "pose_r p = pose_r q"
  shows "calculate_arc_points p cx cy cz (Some rad) n s e (Some sz) (Some ez) t
       = calculate_arc_points q cx cy cz (Some rad) n s e (Some sz) (Some ez) t"
  using arc_point_pose_r [OF assms(2)]
  by (simp add: calculate_arc_points_def arc_radius_def arc_z_bound_def split: sum.splits)

theorem calculate_arc_points_ignores_reference_xy_witness:
  "pose_z \<lparr>pose_x = 0, pose_y = -200, pose_z = -30, pose_r = 0\<rparr>
     = pose_z \<lparr>pose_x = 120, pose_y = 45, pose_z = -30, pose_r = 0\<rparr>
   \<and> pose_r \<lparr>pose_x = 0, pose_y = -200, pose_z = -30, pose_r = 0\<rparr>
     = pose_r \<lparr>pose_x = 120, pose_y = 45, pose_z = -30, pose_r = 0\<rparr>
   \<and> calculate_arc_points \<lparr>pose_x = 0, pose_y = -200, pose_z = -30, pose_r = 0\<rparr>
        0 0 0 (Some 200) 50 0 90 (Some (-35)) (Some (-35)) ''linear''
     = calculate_arc_points \<lparr>pose_x = 120, pose_y = 45, pose_z = -30, pose_r = 0\<rparr>
        0 0 0 (Some 200) 50 0 90 (Some (-35)) (Some (-35)) ''linear''"
  using calculate_arc_points_ignores_reference_xy
    [of "\<lparr>pose_x = 0, pose_y = -200, pose_z = -30, pose_r = 0\<rparr>"
        "\<lparr>pose_x = 120, pose_y = 45, pose_z = -30, pose_r = 0\<rparr>"
        0 0 0 200 50 0 90 "-35" "-35" "''linear''"]
  by simp

section \<open>The plane basis\<close>

text \<open>
  C4. For a normal that is not the zero vector and an up vector not parallel to it
  (their cross product is not zero), \<open>create_rotation_matrix\<close> returns the matrix with
  columns u, v, n where n is the normalized normal, v = n \<times> u, the three have norm 1
  and are pairwise orthogonal.
\<close>

theorem create_rotation_matrix_orthonormal:
  assumes nz: "normal_vector \<noteq> (0, 0, 0)"
    and np: "cross up normal_vector \<noteq> (0, 0, 0)"
  shows "\<exists>u v n. create_rotation_matrix normal_vector (Some up) = column_stack u v n
    \<and> n = normalize_vector normal_vector \<and> v = cross n u
    \<and> linalg_norm u = 1 \<and> linalg_norm v = 1 \<and> linalg_norm n = 1
    \<and> dot u v = 0 \<and> dot v n = 0 \<and> dot u n = 0"
proof -
  define n where "n = normalize_vector normal_vector"
  define u0 where "u0 = vsub up (smult (dot up n) n)"
  define u where "u = normalize_vector u0"
  define v0 where "v0 = cross n u"
  define v where "v = normalize_vector v0"
  have M: "create_rotation_matrix normal_vector (Some up) = column_stack u v n"
    by (simp add: create_rotation_matrix_def Let_def n_def u0_def u_def v0_def v_def)
  have k: "linalg_norm normal_vector \<noteq> 0"
    using nz by (simp add: linalg_norm_eq_0)
  then have n_sdiv: "n = sdiv normal_vector (linalg_norm normal_vector)"
    by (simp add: n_def normalize_vector_def)
  have nn: "dot n n = 1"
    unfolding n_def using nz by (rule dot_normalize_self)
  have "cross up n = sdiv (cross up normal_vector) (linalg_norm normal_vector)"
    by (simp add: n_sdiv cross_sdiv)
  then have cn: "cross up n \<noteq> (0, 0, 0)"
    using np k by (simp add: sdiv_eq_0)
  have u0_nz: "u0 \<noteq> (0, 0, 0)"
  proof
    assume "u0 = (0, 0, 0)"
    then have "up = smult (dot up n) n"
      unfolding u0_def by (rule vsub_eq_0)
    then have "cross up n = cross (smult (dot up n) n) n" by simp
    then show False using cn by (simp add: cross_smult_self)
  qed
  then have ku: "linalg_norm u0 \<noteq> 0" by (simp add: linalg_norm_eq_0)
  have uu: "dot u u = 1"
    unfolding u_def using u0_nz by (rule dot_normalize_self)
  have "dot u0 n = 0"
    unfolding u0_def using nn by (rule projection_orthogonal)
  then have un: "dot u n = 0"
    using ku by (simp add: u_def normalize_vector_def dot_sdiv)
  then have nu: "dot n u = 0" by (simp add: dot_commute)
  have "dot v0 v0 = 1"
    by (simp add: v0_def lagrange nn uu nu)
  then have nv0: "linalg_norm v0 = 1" by (simp add: linalg_norm_dot)
  then have vv: "v = v0" by (simp add: v_def normalize_vector_def sdiv_one)
  have "dot u v = 0" "dot v n = 0"
    using dot_cross_left [of n u] by (simp_all add: vv v0_def dot_commute)
  moreover have "linalg_norm u = 1" "linalg_norm n = 1" "linalg_norm v = 1"
    by (simp_all add: linalg_norm_dot uu nn vv nv0 [unfolded linalg_norm_dot])
  ultimately show ?thesis
    using M un vv v0_def n_def by blast
qed

theorem create_rotation_matrix_orthonormal_witness:
  "(1, 1, 1) \<noteq> (0, 0, 0 :: real) \<and> cross (0, 0, 1) (1, 1, 1) \<noteq> (0, 0, 0)
   \<and> (\<exists>u v n. create_rotation_matrix (1, 1, 1) (Some (0, 0, 1)) = column_stack u v n
    \<and> n = normalize_vector (1, 1, 1) \<and> v = cross n u
    \<and> linalg_norm u = 1 \<and> linalg_norm v = 1 \<and> linalg_norm n = 1
    \<and> dot u v = 0 \<and> dot v n = 0 \<and> dot u n = 0)"
proof -
  have h1: "(1, 1, 1) \<noteq> (0, 0, 0 :: real)" by simp
  have h2: "cross (0, 0, 1) (1, 1, 1) \<noteq> (0, 0, 0)" by simp
  from h1 h2 create_rotation_matrix_orthonormal [OF h1 h2] show ?thesis by blast
qed

section \<open>The semicircle between the current position and a target\<close>

text \<open>
  C6. \<open>execute_circle_from_current_to_point\<close> is documented to draw the semicircle from
  the current position to the target, on the segment between them as diameter. The
  center is the midpoint, the radius half the distance and the angles run from 0 to 180
  (lemmas \<open>semicircle_center_midpoint\<close>, \<open>semicircle_radius_half_distance\<close> and
  \<open>execute_circle_from_current_to_point_range\<close>). The end points are not as documented:
  from the current position (0, 0, 0) to the target (10, 0, 0), with three points and
  no plane normal, the center is (5, 0, 0) and the radius 5, but the first point sent
  to the arm is the target (10, 0, 0) and the last one is the start (0, 0, 0).
\<close>

theorem semicircle_starts_at_target:
  "semicircle_center \<lparr>pose_x = 0, pose_y = 0, pose_z = 0, pose_r = 0\<rparr> (10, 0, 0) = (5, 0, 0)
   \<and> semicircle_radius \<lparr>pose_x = 0, pose_y = 0, pose_z = 0, pose_r = 0\<rparr> (10, 0, 0) = 5
   \<and> execute_circle_from_current_to_point
       \<lparr>pose_x = 0, pose_y = 0, pose_z = 0, pose_r = 0\<rparr> (10, 0, 0) 3 None
     = [(1, \<lparr>pose_x = 10, pose_y = 0, pose_z = 0, pose_r = 0\<rparr>),
        (1, \<lparr>pose_x = 5, pose_y = 0, pose_z = 5, pose_r = 0\<rparr>),
        (1, \<lparr>pose_x = 0, pose_y = 0, pose_z = 0, pose_r = 0\<rparr>)]"
proof -
  have M: "create_rotation_matrix (0, -10, 0) None = ((1, 0, 0), (0, 0, -1), (0, 1, 0))"
    by (simp add: create_rotation_matrix_def normalize_vector_def sqrt_100)
  show ?thesis
    by (simp add: execute_circle_from_current_to_point_def execute_3d_circle_def
        semicircle_center_def semicircle_radius_def semicircle_normal_def sqrt_100
        calculate_3d_circle_points_def M angle_sequence_3d_def global_pose_def
        local_point_def radians_def upt_rec)
qed

end
